theory Spec2Isabelle
  imports Main
begin

section \<open>Values of the host language\<close>

text \<open>
  The compiler of \<^verbatim>\<open>lib/index.js\<close> walks a decoded JSON document and builds plain
  objects that describe document-database schemas.  Both the input and the output are
  modelled by one type of values: the JSON shapes, the storage-type constructors
  (\<^verbatim>\<open>Number\<close>, \<^verbatim>\<open>String\<close>, \<^verbatim>\<open>Boolean\<close>, \<^verbatim>\<open>Date\<close>,
  \<^verbatim>\<open>Schema.Types.ObjectId\<close>) and named validator functions.  An object is the list
  of its own members in insertion order; an array carries its elements and the named
  members that the code may attach to it (\<^verbatim>\<open>required\<close>, \<^verbatim>\<open>default\<close>).

  Scope of the model:
  \<^item> numbers are integers (the code copies numbers, it never computes with them);
  \<^item> a member is looked up among the own members only, so names that every object
    inherits (\<^verbatim>\<open>constructor\<close>, \<^verbatim>\<open>toString\<close>, ...) are outside the model;
  \<^item> members are enumerated in insertion order, also those whose names are canonical
    array indices;
  \<^item> objects are values: two places that hold the same object in the running program
    hold equal values here, and an in-place rewrite is written back to the definition
    registry along the path that was used to reach the object.
\<close>

datatype stype = SNumber | SString | SBoolean | SDate | SObjectId

datatype jsval =
    Undefined
  | Null
  | Bool bool
  | Num int
  | Str string
  | Ctor stype
  | Fn string
  | Arr "jsval list" "(string \<times> jsval) list"
  | Obj "(string \<times> jsval) list"

datatype terr = NullishMember | NotAFunction | NullMatch

datatype error =
    SpecNotSupplied
  | InvalidSpec
  | UnrecognisedFormat jsval
  | UnrecognizedType jsval
  | TypeError terr
  | External string

fun nullish :: "jsval \<Rightarrow> bool" where
  "nullish Undefined = True"
| "nullish Null = True"
| "nullish _ = False"

fun truthy :: "jsval \<Rightarrow> bool" where
  "truthy Undefined = False"
| "truthy Null = False"
| "truthy (Bool b) = b"
| "truthy (Num n) = (n \<noteq> 0)"
| "truthy (Str s) = (s \<noteq> [])"
| "truthy _ = True"

subsection \<open>Member names that are array indices\<close>

function show_nat :: "nat \<Rightarrow> string" where
  "show_nat n =
     (if n < 10 then [''0123456789'' ! n]
      else show_nat (n div 10) @ [''0123456789'' ! (n mod 10)])"
  by pat_completeness auto
termination
  by (relation "measure id") auto

declare show_nat.simps [simp del]

text \<open>\<open>arrIndex n k\<close> is the index below \<open>n\<close> that the member name \<open>k\<close> denotes, if
  \<open>k\<close> is the decimal numeral of one.\<close>

definition arrIndex :: "nat \<Rightarrow> string \<Rightarrow> nat option" where
  "arrIndex n k = find (\<lambda>i. show_nat i = k) [0..<n]"

fun indexed :: "nat \<Rightarrow> 'a list \<Rightarrow> (string \<times> 'a) list" where
  "indexed i [] = []"
| "indexed i (x # xs) = (show_nat i, x) # indexed (Suc i) xs"

subsection \<open>Reading and writing members\<close>

definition lookup :: "(string \<times> jsval) list \<Rightarrow> string \<Rightarrow> jsval" where
  "lookup kvs k = (case map_of kvs k of Some v \<Rightarrow> v | None \<Rightarrow> Undefined)"

text \<open>\<open>getp v k\<close> is \<^verbatim>\<open>v[k]\<close> for a value that is neither \<^verbatim>\<open>undefined\<close> nor
  \<^verbatim>\<open>null\<close>; the callers raise the TypeError of those two.\<close>

fun getp :: "jsval \<Rightarrow> string \<Rightarrow> jsval" where
  "getp (Obj kvs) k = lookup kvs k"
| "getp (Arr xs ex) k =
     (case arrIndex (length xs) k of
        Some i \<Rightarrow> xs ! i
      | None \<Rightarrow> if k = ''length'' then Num (int (length xs)) else lookup ex k)"
| "getp (Str s) k =
     (case arrIndex (length s) k of
        Some i \<Rightarrow> Str [s ! i]
      | None \<Rightarrow> if k = ''length'' then Num (int (length s)) else Undefined)"
| "getp _ k = Undefined"

fun upd :: "(string \<times> 'a) list \<Rightarrow> string \<Rightarrow> 'a \<Rightarrow> (string \<times> 'a) list" where
  "upd [] k v = [(k, v)]"
| "upd ((k', v') # kvs) k v = (if k' = k then (k, v) # kvs else (k', v') # upd kvs k v)"

definition del :: "(string \<times> jsval) list \<Rightarrow> string \<Rightarrow> (string \<times> jsval) list" where
  "del kvs k = filter (\<lambda>kv. fst kv \<noteq> k) kvs"

text \<open>\<^verbatim>\<open>o[k] = v\<close>: a TypeError on \<^verbatim>\<open>undefined\<close> and \<^verbatim>\<open>null\<close>, ignored on the
  other primitives (the module is not in strict mode).  The code writes named members
  only, never an index.\<close>

fun putp :: "jsval \<Rightarrow> string \<Rightarrow> jsval \<Rightarrow> jsval" where
  "putp (Obj kvs) k v = Obj (upd kvs k v)"
| "putp (Arr xs ex) k v = Arr xs (upd ex k v)"
| "putp x k v = x"

definition setp :: "jsval \<Rightarrow> string \<Rightarrow> jsval \<Rightarrow> error + jsval" where
  "setp x k v = (if nullish x then Inl (TypeError NullishMember) else Inr (putp x k v))"

text \<open>\<^verbatim>\<open>delete o[k]\<close>.\<close>

fun delp :: "jsval \<Rightarrow> string \<Rightarrow> jsval" where
  "delp (Obj kvs) k = Obj (del kvs k)"
| "delp (Arr xs ex) k = Arr xs (del ex k)"
| "delp x k = x"

text \<open>The own enumerable members, as \<^verbatim>\<open>Object.assign\<close> and lodash's
  \<^verbatim>\<open>_.extend\<close> copy them: the characters of a string and the elements of an array
  under their indices, nothing for the other primitives.\<close>

fun entries :: "jsval \<Rightarrow> (string \<times> jsval) list" where
  "entries (Obj kvs) = kvs"
| "entries (Arr xs ex) = indexed 0 xs @ ex"
| "entries (Str s) = indexed 0 (map (\<lambda>c. Str [c]) s)"
| "entries _ = []"

definition assign :: "(string \<times> jsval) list \<Rightarrow> jsval \<Rightarrow> (string \<times> jsval) list" where
  "assign dst src = foldl (\<lambda>d kv. upd d (fst kv) (snd kv)) dst (entries src)"

section \<open>The Type Mapper\<close>

definition numericFormats :: "jsval set" where
  "numericFormats = {Str ''integer'', Str ''long'', Str ''float'', Str ''double''}"

lemma size_lookup: "size (lookup kvs k) < Suc (size_list (size_prod (\<lambda>_. 0) size) kvs)"
  by (induction kvs) (auto simp: lookup_def)

lemma size_nth: "i < length xs \<Longrightarrow> size (xs ! i) < Suc (size_list size xs)"
  using size_list_estimation' [of "xs ! i" xs "size (xs ! i)" size] by simp

lemma show_nat_digits: "set (show_nat n) \<subseteq> set ''0123456789''"
proof (induction n rule: show_nat.induct)
  case (1 n)
  have d: "''0123456789'' ! m \<in> set ''0123456789''" if "m < 10" for m
    using that nth_mem [of m "''0123456789''"] by simp
  show ?case
  proof (cases "n < 10")
    case True
    then show ?thesis using d [of n] by (subst show_nat.simps) simp
  next
    case False
    then show ?thesis using 1 d [of "n mod 10"] by (subst show_nat.simps) simp
  qed
qed

lemma arrIndex_less: "arrIndex n k = Some i \<Longrightarrow> i < n \<and> show_nat i = k"
  by (auto simp: arrIndex_def find_Some_iff)

lemma arrIndex_None: "(\<And>i. show_nat i \<noteq> k) \<Longrightarrow> arrIndex n k = None"
  by (simp add: arrIndex_def find_None_iff)

lemma show_nat_type: "show_nat i \<noteq> ''type''"
  using show_nat_digits [of i] by auto

lemma arrIndex_type [simp]: "arrIndex n ''type'' = None"
  by (rule arrIndex_None) (rule show_nat_type)

lemma size_getp_obj: "size (getp (Obj kvs) k) < size (Obj kvs)"
  using size_lookup [of kvs k] by simp

lemma size_getp_arr: "size (getp (Arr xs ex) k) < size (Arr xs ex)"
proof (cases "arrIndex (length xs) k")
  case None
  then show ?thesis using size_lookup [of ex k] by simp
next
  case (Some i)
  then show ?thesis using size_nth [of i xs] arrIndex_less [of "length xs" k i] by auto
qed

lemma size_getp: "getp v ''type'' = Str ''array'' \<Longrightarrow> size (getp v k) < size v"
proof (cases v)
  case (Obj kvs)
  then show ?thesis using size_getp_obj by simp
next
  case (Arr xs ex)
  then show ?thesis using size_getp_arr by simp
qed auto

function propertyMap :: "jsval \<Rightarrow> error + jsval" where
  "propertyMap property =
     (if nullish property then Inl (TypeError NullishMember)
      else if getp property ''type'' = Str ''number'' then
        (if getp property ''format'' \<in> numericFormats then Inr (Ctor SNumber)
         else Inl (UnrecognisedFormat (getp property ''format'')))
      else if getp property ''type'' \<in> numericFormats then Inr (Ctor SNumber)
      else if getp property ''type'' \<in> {Str ''string'', Str ''password''} then Inr (Ctor SString)
      else if getp property ''type'' = Str ''boolean'' then Inr (Ctor SBoolean)
      else if getp property ''type'' \<in> {Str ''date'', Str ''dateTime''} then Inr (Ctor SDate)
      else if getp property ''type'' = Str ''array'' then
        (case propertyMap (getp property ''items'') of
           Inl e \<Rightarrow> Inl e
         | Inr t \<Rightarrow> Inr (Arr [t] []))
      else Inl (UnrecognizedType (getp property ''type'')))"
  by pat_completeness auto
termination
  by (relation "measure size") (auto intro: size_getp)

declare propertyMap.simps [simp del]

section \<open>Results, the session and the external collaborators\<close>

text \<open>A computation raises, returns, or has not returned within the given depth of
  nested calls (the recursion of the schema compiler through references need not end).\<close>

datatype 'a res = OutOfFuel | Throw error | Ok 'a

fun andThen :: "'a res \<Rightarrow> ('a \<Rightarrow> 'b res) \<Rightarrow> 'b res" where
  "andThen OutOfFuel f = OutOfFuel"
| "andThen (Throw e) f = Throw e"
| "andThen (Ok x) f = f x"

fun lift :: "error + 'a \<Rightarrow> 'a res" where
  "lift (Inl e) = Throw e"
| "lift (Inr x) = Ok x"

fun bindE :: "error + 'a \<Rightarrow> ('a \<Rightarrow> error + 'b) \<Rightarrow> error + 'b" where
  "bindE (Inl e) f = Inl e"
| "bindE (Inr x) f = f x"

text \<open>
  The module-level variables of \<^verbatim>\<open>lib/index.js\<close>.  Of \<^verbatim>\<open>swaggerVersion\<close> the
  code only ever asks whether it is at least 2, so the session keeps that answer
  (\<^verbatim>\<open>null >= 2\<close> is false).  The validator registry is the exports object of a
  loaded module, read by member name only.
\<close>

record session =
  definitions :: jsval
  swaggerVersionGe2 :: bool
  schemaOptions :: "(string \<times> jsval) list"
  additionalProperties :: "(string \<times> jsval) list"
  excludeSchema :: "(string \<times> jsval) list"
  documentIndex :: "(string \<times> jsval) list"
  validators :: "jsval \<Rightarrow> jsval"

definition initialSession :: session where
  "initialSession =
     \<lparr>definitions = Null, swaggerVersionGe2 = False, schemaOptions = [],
      additionalProperties = [], excludeSchema = [], documentIndex = [],
      validators = (\<lambda>_. Undefined)\<rparr>"

text \<open>
  What the code calls and this file does not define: \<^verbatim>\<open>Number(v) >= 2\<close> on the version
  member, \<^verbatim>\<open>JSON.parse\<close>, and \<^verbatim>\<open>require(path.resolve(process.cwd(), p))\<close>.
\<close>

record env =
  numberGe2 :: "jsval \<Rightarrow> bool"
  jsonParse :: "string \<Rightarrow> error + jsval"
  requireModule :: "jsval \<Rightarrow> error + (jsval \<Rightarrow> jsval)"

definition v2MongooseProperty :: string where
  "v2MongooseProperty = ''x-swagger-mongoose''"

definition v1MongooseProperty :: string where
  "v1MongooseProperty = ''_mongoose''"

definition allowedTypes :: "jsval list" where
  "allowedTypes =
     [Str ''number'', Str ''integer'', Str ''long'', Str ''float'', Str ''double'',
      Str ''string'', Str ''password'', Str ''boolean'', Str ''date'', Str ''dateTime'',
      Str ''array'']"

definition isAllowedType :: "jsval \<Rightarrow> bool" where
  "isAllowedType t = (t \<in> set allowedTypes)"

definition isSimpleSchema :: "jsval \<Rightarrow> bool" where
  "isSimpleSchema schema = (truthy (getp schema ''type'') \<and> isAllowedType (getp schema ''type''))"

definition isAtLeastSwagger2 :: "session \<Rightarrow> bool" where
  "isAtLeastSwagger2 s = swaggerVersionGe2 s"

definition getMongooseProperty :: "session \<Rightarrow> string" where
  "getMongooseProperty s = (if isAtLeastSwagger2 s then v2MongooseProperty else v1MongooseProperty)"

text \<open>The three shape tests read members of the property, which is not
  \<^verbatim>\<open>undefined\<close> or \<^verbatim>\<open>null\<close> where they are called.\<close>

definition isMongooseProperty :: "session \<Rightarrow> jsval \<Rightarrow> bool" where
  "isMongooseProperty s property = truthy (getp property (getMongooseProperty s))"

definition isMongooseArray :: "session \<Rightarrow> jsval \<Rightarrow> bool" where
  "isMongooseArray s property =
     (truthy (getp property ''items'') \<and>
      truthy (getp (getp property ''items'') (getMongooseProperty s)))"

text \<open>\<^verbatim>\<open>property.$ref || (property.type === 'array' && property.items.$ref)\<close>: reading
  \<^verbatim>\<open>$ref\<close> of missing items is a TypeError.\<close>

definition isPropertyHasRef :: "jsval \<Rightarrow> error + bool" where
  "isPropertyHasRef property =
     (if truthy (getp property ''$ref'') then Inr True
      else if getp property ''type'' = Str ''array'' then
        (if nullish (getp property ''items'') then Inl (TypeError NullishMember)
         else Inr (truthy (getp (getp property ''items'') ''$ref'')))
      else Inr False)"

definition isPolymorphic :: "jsval \<Rightarrow> bool" where
  "isPolymorphic def = truthy (getp def ''allOf'')"

definition isMongodbReserved :: "jsval \<Rightarrow> bool" where
  "isMongodbReserved fieldKey = (fieldKey = Str ''_id'' \<or> fieldKey = Str ''__v'')"

text \<open>A key of an iteration is a member name or, over an array or a string, an index;
  \<open>propKey\<close> is the member name it addresses.\<close>

fun propKey :: "jsval \<Rightarrow> string" where
  "propKey (Str k) = k"
| "propKey (Num i) = show_nat (nat i)"
| "propKey _ = ''undefined''"

text \<open>\<^verbatim>\<open>object[key][m] = v\<close>.\<close>

definition setMember :: "jsval \<Rightarrow> jsval \<Rightarrow> string \<Rightarrow> jsval \<Rightarrow> error + jsval" where
  "setMember object key m v =
     bindE (setp (getp object (propKey key)) m v) (\<lambda>t. setp object (propKey key) t)"

fun isArr :: "jsval \<Rightarrow> bool" where
  "isArr (Arr xs ex) = True"
| "isArr _ = False"

fun elems :: "jsval \<Rightarrow> jsval list" where
  "elems (Arr xs ex) = xs"
| "elems _ = []"

fun isBool :: "jsval \<Rightarrow> bool" where
  "isBool (Bool b) = True"
| "isBool _ = False"

definition fillRequired :: "jsval \<Rightarrow> jsval \<Rightarrow> jsval \<Rightarrow> error + jsval" where
  "fillRequired object key template =
     (if truthy template \<and> isArr template \<and> key \<in> set (elems template)
      then setMember object key ''required'' (Bool True)
      else if isBool template then setMember object key ''required'' template
      else Inr object)"

subsection \<open>Reference pointers\<close>

definition is_word :: "char \<Rightarrow> bool" where
  "is_word c =
     (let n = (of_char c :: nat)
      in (48 \<le> n \<and> n \<le> 57) \<or> (65 \<le> n \<and> n \<le> 90) \<or> (97 \<le> n \<and> n \<le> 122) \<or> n = 95)"

text \<open>The capture group of \<^verbatim>\<open>/^#\/definitions\/(\w*)$/\<close>, or \<open>None\<close> for
  \<^verbatim>\<open>null\<close>.\<close>

definition refRegExp :: "string \<Rightarrow> string option" where
  "refRegExp r =
     (if take 14 r = ''#/definitions/'' \<and> list_all is_word (drop 14 r)
      then Some (drop 14 r) else None)"

text \<open>\<^verbatim>\<open>refString.match(refRegExp)[1]\<close>: only a string has \<^verbatim>\<open>match\<close>.\<close>

fun matchRef :: "jsval \<Rightarrow> error + string" where
  "matchRef (Str r) =
     (case refRegExp r of None \<Rightarrow> Inl (TypeError NullMatch) | Some t \<Rightarrow> Inr t)"
| "matchRef Undefined = Inl (TypeError NullishMember)"
| "matchRef Null = Inl (TypeError NullishMember)"
| "matchRef _ = Inl (TypeError NotAFunction)"

fun removeFirst :: "string \<Rightarrow> string \<Rightarrow> string" where
  "removeFirst pat [] = []"
| "removeFirst pat (c # cs) =
     (if take (length pat) (c # cs) = pat then drop (length pat) (c # cs)
      else c # removeFirst pat cs)"

text \<open>\<^verbatim>\<open>ref.replace('#/definitions/', '')\<close> for a truthy \<^verbatim>\<open>ref\<close>.\<close>

fun replaceRef :: "jsval \<Rightarrow> error + jsval" where
  "replaceRef (Str r) = Inr (Str (removeFirst ''#/definitions/'' r))"
| "replaceRef _ = Inl (TypeError NotAFunction)"

section \<open>Extension metadata of a property\<close>

definition getMongooseSpecific :: "session \<Rightarrow> jsval \<Rightarrow> jsval \<Rightarrow> error + jsval" where
  "getMongooseSpecific s props property =
     (if nullish property then Inl (TypeError NullishMember)
      else
        let mp = getMongooseProperty s;
            own = getp property mp;
            viaItems = (\<not> truthy own \<and> isMongooseArray s property);
            mongooseSpecific = (if viaItems then getp (getp property ''items'') mp else own);
            ref =
              (if viaItems then
                 (if isAtLeastSwagger2 s then getp mongooseSpecific ''$ref''
                  else getp (getp property ''items'') ''$ref'')
               else if isAtLeastSwagger2 s \<and> truthy own then getp own ''$ref''
               else getp property ''$ref'')
        in
          if \<not> truthy mongooseSpecific then Inr props
          else if truthy ref then
            (if \<not> isAtLeastSwagger2 s then
               (if getp mongooseSpecific ''type'' = Str ''objectId'' then
                  (if getp mongooseSpecific ''includeSwaggerRef'' \<noteq> Bool False then
                     bindE (replaceRef ref)
                       (\<lambda>r. Inr (Obj [(''type'', Ctor SObjectId), (''ref'', r)]))
                   else Inr (Obj [(''type'', Ctor SObjectId)]))
                else Inr (Obj []))
             else
               bindE (replaceRef ref)
                 (\<lambda>r. Inr (Obj [(''type'', Ctor SObjectId), (''ref'', r)])))
          else if truthy (getp mongooseSpecific ''validator'') then
            Inr (Obj (del (assign (assign [] property)
                   (Obj [(''validate'', validators s (getp mongooseSpecific ''validator''))])) mp))
          else
            (let ret = Obj (del (assign (assign [] property) mongooseSpecific) mp)
             in if isSimpleSchema ret
                then bindE (propertyMap ret) (\<lambda>t. Inr (putp ret ''type'' t))
                else Inr ret))"

section \<open>The Polymorphism Merger\<close>

text \<open>\<^verbatim>\<open>required.forEach(req => mergedReqs.add(req))\<close> under
  \<^verbatim>\<open>if (required)\<close>.  The set keeps the order of first insertion; its elements are
  compared by value.\<close>

definition addReqs :: "jsval list \<Rightarrow> jsval \<Rightarrow> error + jsval list" where
  "addReqs mergedReqs required =
     (if \<not> truthy required then Inr mergedReqs
      else case required of
          Arr rs ex \<Rightarrow> Inr (foldl (\<lambda>a r. if r \<in> set a then a else a @ [r]) mergedReqs rs)
        | _ \<Rightarrow> Inl (TypeError NotAFunction))"

text \<open>The definition that a fragment stands for: the target of its reference, or the
  fragment itself.\<close>

definition fragmentObject :: "jsval \<Rightarrow> jsval \<Rightarrow> error + jsval" where
  "fragmentObject defs polyDef =
     (if nullish polyDef then Inl (TypeError NullishMember)
      else if truthy (getp polyDef ''$ref'') then
        bindE (matchRef (getp polyDef ''$ref''))
          (\<lambda>propType.
             if nullish defs \<or> nullish (getp defs propType) then Inl (TypeError NullishMember)
             else Inr (getp defs propType))
      else Inr polyDef)"

definition mergeFragment ::
  "jsval \<Rightarrow> (string \<times> jsval) list \<times> jsval list \<Rightarrow> jsval
     \<Rightarrow> error + (string \<times> jsval) list \<times> jsval list" where
  "mergeFragment defs acc polyDef =
     bindE (fragmentObject defs polyDef)
       (\<lambda>object.
          bindE (addReqs (snd acc) (getp object ''required''))
            (\<lambda>mergedReqs. Inr (assign (fst acc) (getp object ''properties''), mergedReqs)))"

fun mergeAll ::
  "jsval \<Rightarrow> (string \<times> jsval) list \<times> jsval list \<Rightarrow> jsval list
     \<Rightarrow> error + (string \<times> jsval) list \<times> jsval list" where
  "mergeAll defs acc [] = Inr acc"
| "mergeAll defs acc (polyDef # rest) =
     (case mergeFragment defs acc polyDef of
        Inl e \<Rightarrow> Inl e
      | Inr acc' \<Rightarrow> mergeAll defs acc' rest)"

definition installMerged :: "jsval \<Rightarrow> (string \<times> jsval) list \<times> jsval list \<Rightarrow> jsval" where
  "installMerged definition acc =
     (let d1 = (if fst acc \<noteq> [] then putp definition ''properties'' (Obj (fst acc)) else definition);
          d2 = (if snd acc \<noteq> [] then putp d1 ''required'' (Arr (snd acc) []) else d1)
      in delp d2 ''allOf'')"

text \<open>\<open>processPolymorphic defs definition\<close> is the definition as the in-place rewrite
  leaves it; \<open>defs\<close> is the registry at the time of the call.\<close>

definition processPolymorphic :: "jsval \<Rightarrow> jsval \<Rightarrow> error + jsval" where
  "processPolymorphic defs definition =
     (if nullish definition \<or> nullish (getp definition ''allOf'')
      then Inl (TypeError NullishMember)
      else case getp definition ''allOf'' of
          Arr fragments ex \<Rightarrow>
            bindE (mergeAll defs ([], []) fragments) (\<lambda>acc. Inr (installMerged definition acc))
        | _ \<Rightarrow> Inl (TypeError NotAFunction))"

section \<open>Objects of the registry and detached objects\<close>

text \<open>
  The compiler is handed objects by reference, and the Polymorphism Merger rewrites
  them in place.  An object that lives in the definition registry is named by the path of
  member names that leads to it, and a rewrite is written back along that path.  Two
  kinds of objects are built by the compiler itself: the shallow clone of a registry
  entry (its members are still the registry's objects; a rewrite of the clone itself is
  lost with it) and the wrapper of an additional property (a detached value).
\<close>

datatype node = Reg "string list" | Clone jsval "string list" | Det jsval

fun get_path :: "jsval \<Rightarrow> string list \<Rightarrow> jsval" where
  "get_path v [] = v"
| "get_path v (k # ks) = get_path (getp v k) ks"

fun set_path :: "jsval \<Rightarrow> string list \<Rightarrow> jsval \<Rightarrow> jsval" where
  "set_path v [] new = new"
| "set_path (Obj kvs) (k # ks) new =
     (if k \<in> fst ` set kvs then Obj (upd kvs k (set_path (lookup kvs k) ks new)) else Obj kvs)"
| "set_path (Arr xs ex) (k # ks) new =
     (case arrIndex (length xs) k of
        Some i \<Rightarrow> Arr (xs[i := set_path (xs ! i) ks new]) ex
      | None \<Rightarrow>
          if k \<in> fst ` set ex then Arr xs (upd ex k (set_path (lookup ex k) ks new))
          else Arr xs ex)"
| "set_path v (k # ks) new = v"

fun nval :: "session \<Rightarrow> node \<Rightarrow> jsval" where
  "nval s (Reg p) = get_path (definitions s) p"
| "nval s (Clone v p) = v"
| "nval s (Det v) = v"

text \<open>A member read again after nested calls may have rewritten it.\<close>

fun nmember :: "session \<Rightarrow> node \<Rightarrow> string \<Rightarrow> jsval" where
  "nmember s (Reg p) k = get_path (definitions s) (p @ [k])"
| "nmember s (Clone v p) k =
     (if getp v k = Undefined then Undefined else get_path (definitions s) (p @ [k]))"
| "nmember s (Det v) k = getp v k"

fun nchild :: "node \<Rightarrow> string \<Rightarrow> node" where
  "nchild (Reg p) k = Reg (p @ [k])"
| "nchild (Clone v p) k = Reg (p @ [k])"
| "nchild (Det v) k = Det (getp v k)"

fun nput :: "session \<Rightarrow> node \<Rightarrow> jsval \<Rightarrow> session" where
  "nput s (Reg p) v = s\<lparr>definitions := set_path (definitions s) p v\<rparr>"
| "nput s (Clone c p) v = s"
| "nput s (Det d) v = s"

text \<open>The object to go on with after a rewrite.\<close>

fun rewritten :: "node \<Rightarrow> jsval \<Rightarrow> node" where
  "rewritten (Reg p) v = Reg p"
| "rewritten (Clone c p) v = Det v"
| "rewritten (Det d) v = Det v"

text \<open>The keys that lodash's \<^verbatim>\<open>_.forEach\<close> and \<^verbatim>\<open>_.each\<close> hand to the callback:
  the indices of an array, of a string and of an object with a numeric
  \<^verbatim>\<open>length\<close> member, the member names of any other object, none for the other
  values.  The callbacks of this module never return \<^verbatim>\<open>false\<close>, so no iteration is
  cut short.\<close>

definition indexKeys :: "nat \<Rightarrow> jsval list" where
  "indexKeys n = map (\<lambda>i. Num (int i)) [0..<n]"

fun forEachKeys :: "jsval \<Rightarrow> jsval list" where
  "forEachKeys (Arr xs ex) = indexKeys (length xs)"
| "forEachKeys (Str s) = indexKeys (length s)"
| "forEachKeys (Obj kvs) =
     (case lookup kvs ''length'' of
        Num n \<Rightarrow>
          if 0 \<le> n \<and> n \<le> 9007199254740991 then indexKeys (nat n)
          else map (\<lambda>kv. Str (fst kv)) kvs
      | _ \<Rightarrow> map (\<lambda>kv. Str (fst kv)) kvs)"
| "forEachKeys _ = []"

section \<open>The Reference Resolver, the Property Compiler and the schema of an object\<close>

lemma andThen_cong [fundef_cong]:
  "m = m' \<Longrightarrow> (\<And>x. m' = Ok x \<Longrightarrow> f x = f' x) \<Longrightarrow> andThen m f = andThen m' f'"
  by (cases m') auto

text \<open>\<^verbatim>\<open>property.$ref ? property.$ref : property.items.$ref\<close>.\<close>

definition refStringOf :: "jsval \<Rightarrow> error + jsval" where
  "refStringOf property =
     (if truthy (getp property ''$ref'') then Inr (getp property ''$ref'')
      else if nullish (getp property ''items'') then Inl (TypeError NullishMember)
      else Inr (getp (getp property ''items'') ''$ref''))"

definition circularRef :: "string \<Rightarrow> jsval" where
  "circularRef propType = Obj [(''type'', Ctor SObjectId), (''ref'', Str propType)]"

definition scalarProperty :: "jsval \<Rightarrow> jsval \<Rightarrow> jsval" where
  "scalarProperty property t =
     (if truthy (getp property ''enum'') \<and> isArr (getp property ''enum'')
      then Obj [(''type'', t), (''enum'', getp property ''enum'')]
      else Obj [(''type'', t)])"

definition wrapItems :: "bool \<Rightarrow> jsval \<Rightarrow> jsval" where
  "wrapItems b v = (if b then Arr [v] [] else v)"

text \<open>The rewrite at the head of \<^verbatim>\<open>getSchema\<close>: the session after it, the object to
  go on with and its value.\<close>

definition mergeStep :: "session \<Rightarrow> node \<Rightarrow> (session \<times> node \<times> jsval) res" where
  "mergeStep s fullObject =
     (if isPolymorphic (nval s fullObject) then
        andThen (lift (processPolymorphic (definitions s) (nval s fullObject)))
          (\<lambda>merged. Ok (nput s fullObject merged, rewritten fullObject merged, merged))
      else Ok (s, fullObject, nval s fullObject))"

text \<open>\<^verbatim>\<open>fullObject.properties ? fullObject.properties : fullObject\<close>.\<close>

definition objectOf :: "node \<Rightarrow> jsval \<Rightarrow> node" where
  "objectOf fullObject v =
     (if truthy (getp v ''properties'') then nchild fullObject ''properties'' else fullObject)"

text \<open>\<^verbatim>\<open>fullObject.required || []\<close>.\<close>

definition requiredOf :: "jsval \<Rightarrow> jsval" where
  "requiredOf v = (if truthy (getp v ''required'') then getp v ''required'' else Arr [] [])"

text \<open>The end of \<^verbatim>\<open>getSchemaProperty\<close>: the required facet, then the default.\<close>

definition finishProperty ::
  "node \<Rightarrow> jsval \<Rightarrow> jsval \<Rightarrow> session \<times> jsval \<Rightarrow> (session \<times> jsval) res" where
  "finishProperty property key required sp =
     andThen (lift (if truthy required then fillRequired (snd sp) key required else Inr (snd sp)))
       (\<lambda>props1.
          andThen
            (lift (if nmember (fst sp) property ''default'' \<noteq> Undefined
                   then setMember props1 key ''default'' (nmember (fst sp) property ''default'')
                   else Inr props1))
            (\<lambda>props2. Ok (fst sp, props2)))"

text \<open>The branches of \<^verbatim>\<open>getSchemaProperty\<close> that call neither \<^verbatim>\<open>processRef\<close> nor
  \<^verbatim>\<open>getSchema\<close>.\<close>

datatype branch = Mongoose | MongooseArray | HasRef | Polymorphic | Nested | Scalar

definition branchOf :: "session \<Rightarrow> jsval \<Rightarrow> error + branch" where
  "branchOf s property =
     (if isMongooseProperty s property then Inr Mongoose
      else if isMongooseArray s property then Inr MongooseArray
      else
        bindE (isPropertyHasRef property)
          (\<lambda>hasRef.
             if hasRef then Inr HasRef
             else if isPolymorphic property then Inr Polymorphic
             else if \<not> truthy (getp property ''type'') \<or> getp property ''type'' = Str ''object''
             then Inr Nested
             else Inr Scalar))"

definition single :: "jsval \<Rightarrow> jsval \<Rightarrow> jsval" where
  "single key v = Obj [(propKey key, v)]"

definition leafProperty :: "session \<Rightarrow> node \<Rightarrow> jsval \<Rightarrow> branch \<Rightarrow> (session \<times> jsval) res" where
  "leafProperty s property key b =
     (case b of
        Mongoose \<Rightarrow>
          andThen (lift (getMongooseSpecific s (Obj []) (nval s property)))
            (\<lambda>r. Ok (s, single key r))
      | MongooseArray \<Rightarrow>
          andThen (lift (getMongooseSpecific s (Obj []) (nval s property)))
            (\<lambda>r. Ok (s, single key (Arr [r] [])))
      | Polymorphic \<Rightarrow>
          andThen (lift (processPolymorphic (definitions s) (nval s property)))
            (\<lambda>merged. Ok (nput s property merged, Obj []))
      | _ \<Rightarrow>
          andThen (lift (propertyMap (nval s property)))
            (\<lambda>t. Ok (s, single key (scalarProperty (nval s property) t))))"

text \<open>In \<^verbatim>\<open>processRef\<close>: the name the pointer ends in.\<close>

definition refTarget :: "jsval \<Rightarrow> error + string" where
  "refTarget property = bindE (refStringOf property) matchRef"

text \<open>\<^verbatim>\<open>props[key] = v\<close> on the session's side of a pair.\<close>

definition store :: "jsval \<Rightarrow> jsval \<Rightarrow> session \<Rightarrow> jsval \<Rightarrow> (session \<times> jsval) res" where
  "store props key s v = andThen (lift (setp props (propKey key) v)) (\<lambda>props1. Ok (s, props1))"

definition cloneOf :: "session \<Rightarrow> string \<Rightarrow> node" where
  "cloneOf s propType =
     Clone (delp (Obj (assign [] (getp (definitions s) propType))) (getMongooseProperty s))
       [propType]"

definition finishRef :: "jsval \<Rightarrow> jsval \<Rightarrow> session \<times> jsval \<Rightarrow> (session \<times> jsval) res" where
  "finishRef key required sp =
     andThen (lift (fillRequired (snd sp) key required)) (\<lambda>props2. Ok (fst sp, props2))"

text \<open>
  The four functions below are \<^verbatim>\<open>getSchema\<close>, its \<^verbatim>\<open>_.forEach\<close> callback loop,
  \<^verbatim>\<open>getSchemaProperty\<close> and \<^verbatim>\<open>processRef\<close>.  The first argument bounds the depth of
  nested calls.  \<^verbatim>\<open>processRef\<close> returns the \<^verbatim>\<open>props\<close> object it was given, updated.
  In \<^verbatim>\<open>getSchemaProperty\<close> the test \<^verbatim>\<open>property.type !== 'object'\<close> holds whenever it is
  reached, so the two branches after it (the only readers of the fifth parameter) are
  never taken.
\<close>

function getSchema :: "nat \<Rightarrow> session \<Rightarrow> jsval \<Rightarrow> node \<Rightarrow> (session \<times> jsval) res"
  and getSchemaLoop ::
    "nat \<Rightarrow> session \<Rightarrow> node \<Rightarrow> jsval list \<Rightarrow> jsval \<Rightarrow> jsval \<Rightarrow> (string \<times> jsval) list
       \<Rightarrow> (session \<times> jsval) res"
  and getSchemaProperty ::
    "nat \<Rightarrow> session \<Rightarrow> node \<Rightarrow> jsval \<Rightarrow> jsval \<Rightarrow> jsval \<Rightarrow> (session \<times> jsval) res"
  and processRef ::
    "nat \<Rightarrow> session \<Rightarrow> node \<Rightarrow> jsval \<Rightarrow> jsval \<Rightarrow> jsval \<Rightarrow> jsval \<Rightarrow> (session \<times> jsval) res"
where
  "getSchema 0 s objectName fullObject = OutOfFuel"
| "getSchema (Suc n) s objectName fullObject =
     (if nullish (nval s fullObject) then Throw (TypeError NullishMember)
      else
        andThen (mergeStep s fullObject)
          (\<lambda>m. getSchemaLoop n (fst m) (objectOf (fst (snd m)) (snd (snd m)))
                  (forEachKeys (nval (fst m) (objectOf (fst (snd m)) (snd (snd m)))))
                  (requiredOf (nval s fullObject)) objectName []))"
| "getSchemaLoop n s object [] required objectName props = Ok (s, Obj props)"
| "getSchemaLoop n s object (key # keys) required objectName props =
     andThen (getSchemaProperty n s (nchild object (propKey key)) key required objectName)
       (\<lambda>r. getSchemaLoop n (fst r) object keys required objectName (assign props (snd r)))"
| "getSchemaProperty 0 s property key required objectName = OutOfFuel"
| "getSchemaProperty (Suc n) s property key required objectName =
     (if isMongodbReserved key then Ok (s, Undefined)
      else if nullish (nval s property) then Throw (TypeError NullishMember)
      else
        andThen (lift (branchOf s (nval s property)))
          (\<lambda>b. andThen
                 (if b = HasRef then processRef n s property objectName (Obj []) key required
                  else if b = Nested then
                    andThen (getSchema n s key property) (\<lambda>r. Ok (fst r, single key (snd r)))
                  else leafProperty s property key b)
                 (finishProperty property key required)))"
| "processRef 0 s property objectName props key required = OutOfFuel"
| "processRef (Suc n) s property objectName props key required =
     (if nullish (nval s property) then Throw (TypeError NullishMember)
      else
        andThen (lift (refTarget (nval s property)))
          (\<lambda>propType.
             andThen
               (if Str propType \<noteq> objectName then
                  (if nullish (definitions s) \<or> nullish (getp (definitions s) propType)
                   then Throw (TypeError NullishMember)
                   else if getp (getp (definitions s) propType) ''type''
                             \<in> {Str ''array'', Str ''object''} then
                     andThen
                       (getSchema n s (Str propType)
                          (objectOf (Reg [propType]) (getp (definitions s) propType)))
                       (\<lambda>r. store props key (fst r)
                          (wrapItems
                             (truthy (getp (nval s property) ''items'')
                              \<or> getp (getp (definitions s) propType) ''type'' = Str ''array'')
                             (snd r)))
                   else
                     andThen (getSchemaProperty n s (cloneOf s propType) key Undefined Undefined)
                       (\<lambda>r. if nullish (snd r) then Throw (TypeError NullishMember)
                            else store props key (fst r)
                              (wrapItems (truthy (getp (nval s property) ''items''))
                                 (getp (snd r) (propKey key)))))
                else if propType \<noteq> [] then store props key s (circularRef propType)
                else Ok (s, props))
               (finishRef key required)))"
  by pat_completeness auto
termination
  by (relation "measures
        [\<lambda>x. case x of
            Inl (Inl (n, _)) \<Rightarrow> n
          | Inl (Inr (n, _)) \<Rightarrow> n
          | Inr (Inl (n, _)) \<Rightarrow> n
          | Inr (Inr (n, _)) \<Rightarrow> n,
         \<lambda>x. case x of
            Inl (Inl _) \<Rightarrow> 0
          | Inl (Inr (n, s, object, keys, _)) \<Rightarrow> Suc (length keys)
          | Inr _ \<Rightarrow> 0]")
     auto

section \<open>The Definition Compiler and the Compilation Session\<close>

text \<open>
  \<^verbatim>\<open>new mongoose.Schema(object, options)\<close> and \<^verbatim>\<open>mongoose.model(key, schema)\<close> are
  constructors of the object-document mapper; a handle records what it was built from.
  The index directive that \<^verbatim>\<open>processDocumentIndex\<close> registers on the handle is not
  recorded (one metadata block can be shared by several definitions, which values do not
  show); its \<^verbatim>\<open>delete index.unique\<close> is applied to the session's entry.
\<close>

datatype schema = Schema jsval jsval

datatype model = Model string schema

type_synonym compiled = "(string \<times> schema) list \<times> (string \<times> model) list"

datatype specInput = Value jsval | Buffer string

fun convertToJSON :: "env \<Rightarrow> specInput \<Rightarrow> error + jsval" where
  "convertToJSON e (Buffer b) = jsonParse e b"
| "convertToJSON e (Value (Str t)) = jsonParse e t"
| "convertToJSON e (Value (Obj kvs)) = Inr (Obj kvs)"
| "convertToJSON e (Value (Arr xs ex)) = Inr (Arr xs ex)"
| "convertToJSON e (Value Null) = Inr Null"
| "convertToJSON e (Value v) = Inl InvalidSpec"

fun suppliedSpec :: "specInput \<Rightarrow> bool" where
  "suppliedSpec (Buffer b) = True"
| "suppliedSpec (Value v) = truthy v"

text \<open>\<^verbatim>\<open>_.each(defs, val => { val[mongooseProperty] = defaultDefs })\<close>.\<close>

fun broadcastDefault :: "string \<Rightarrow> jsval \<Rightarrow> jsval \<Rightarrow> jsval list \<Rightarrow> error + jsval" where
  "broadcastDefault mp defaultDefs defs [] = Inr defs"
| "broadcastDefault mp defaultDefs defs (key # keys) =
     (case setp (getp defs (propKey key)) mp defaultDefs of
        Inl e \<Rightarrow> Inl e
      | Inr val \<Rightarrow> broadcastDefault mp defaultDefs (set_path defs [propKey key] val) keys)"

text \<open>\<^verbatim>\<open>_.each(extraDefinitions, (val, key) => { defs[key][mongooseProperty] = val })\<close>.\<close>

fun installExtra :: "string \<Rightarrow> jsval \<Rightarrow> jsval \<Rightarrow> jsval list \<Rightarrow> error + jsval" where
  "installExtra mp extraDefinitions defs [] = Inr defs"
| "installExtra mp extraDefinitions defs (key # keys) =
     (if nullish defs then Inl (TypeError NullishMember)
      else case setp (getp defs (propKey key)) mp (getp extraDefinitions (propKey key)) of
          Inl e \<Rightarrow> Inl e
        | Inr d \<Rightarrow> installExtra mp extraDefinitions (set_path defs [propKey key] d) keys)"

text \<open>\<open>applyExtraDefinitions\<close> returns the registry and the caller's
  \<^verbatim>\<open>_extraDefinitions\<close> object as the call leaves them.\<close>

definition applyExtraDefinitions :: "session \<Rightarrow> jsval \<Rightarrow> jsval \<Rightarrow> error + jsval \<times> jsval" where
  "applyExtraDefinitions s defs extraDefinitions =
     (if \<not> truthy extraDefinitions then Inr (defs, extraDefinitions)
      else if \<not> truthy (getp extraDefinitions ''default'') then
        bindE (installExtra (getMongooseProperty s) extraDefinitions defs
                 (forEachKeys extraDefinitions))
          (\<lambda>defs1. Inr (defs1, extraDefinitions))
      else
        bindE (broadcastDefault (getMongooseProperty s) (getp extraDefinitions ''default'')
                 defs (forEachKeys defs))
          (\<lambda>defs1.
             bindE (installExtra (getMongooseProperty s) (delp extraDefinitions ''default'') defs1
                      (forEachKeys (delp extraDefinitions ''default'')))
               (\<lambda>defs2. Inr (defs2, delp extraDefinitions ''default''))))"

definition register ::
  "(string \<times> jsval) list \<Rightarrow> string \<Rightarrow> jsval \<Rightarrow> (string \<times> jsval) list" where
  "register registry key v = (if truthy v then upd registry key v else registry)"

definition processMongooseDefinition :: "env \<Rightarrow> session \<Rightarrow> string \<Rightarrow> jsval \<Rightarrow> error + session" where
  "processMongooseDefinition e s key customOptions =
     (if \<not> truthy customOptions then Inr s
      else
        let s1 = s\<lparr>schemaOptions :=
                     register (schemaOptions s) key (getp customOptions ''schema-options''),
                   excludeSchema :=
                     register (excludeSchema s) key (getp customOptions ''exclude-schema''),
                   additionalProperties :=
                     register (additionalProperties s) key
                       (getp customOptions ''additional-properties''),
                   documentIndex :=
                     register (documentIndex s) key (getp customOptions ''index'')\<rparr>
        in if truthy (getp customOptions ''validators'') then
             bindE (requireModule e (getp customOptions ''validators''))
               (\<lambda>m. Inr (s1\<lparr>validators := m\<rparr>))
           else Inr s1)"

text \<open>\<^verbatim>\<open>_.isEmpty(index)\<close> on a value of the session's index registry, which holds truthy
  values only.\<close>

fun isEmpty :: "jsval \<Rightarrow> bool" where
  "isEmpty (Obj kvs) = (kvs = [])"
| "isEmpty (Arr xs ex) = (xs = [])"
| "isEmpty (Str t) = (t = [])"
| "isEmpty _ = True"

definition processDocumentIndex :: "session \<Rightarrow> string \<Rightarrow> session" where
  "processDocumentIndex s key =
     (if isEmpty (lookup (documentIndex s) key) then s
      else s\<lparr>documentIndex :=
                upd (documentIndex s) key (delp (lookup (documentIndex s) key) ''unique'')\<rparr>)"

fun processAdditionalPropertiesLoop ::
  "nat \<Rightarrow> session \<Rightarrow> jsval \<Rightarrow> jsval list \<Rightarrow> jsval \<Rightarrow> (string \<times> jsval) list
     \<Rightarrow> (session \<times> jsval) res" where
  "processAdditionalPropertiesLoop n s additional [] objectName props = Ok (s, Obj props)"
| "processAdditionalPropertiesLoop n s additional (key # keys) objectName props =
     (if nullish (getp additional (propKey key)) then Throw (TypeError NullishMember)
      else
        case getSchemaProperty n s
               (Det (Obj [(getMongooseProperty s, getp additional (propKey key))])) key
               (getp (getp additional (propKey key)) ''required'') objectName of
          OutOfFuel \<Rightarrow> OutOfFuel
        | Throw e \<Rightarrow> Throw e
        | Ok r \<Rightarrow>
            processAdditionalPropertiesLoop n (fst r) additional keys objectName
              (assign props (snd r)))"

definition processAdditionalProperties ::
  "nat \<Rightarrow> session \<Rightarrow> jsval \<Rightarrow> jsval \<Rightarrow> (session \<times> jsval) res" where
  "processAdditionalProperties n s additional objectName =
     processAdditionalPropertiesLoop n s additional (forEachKeys additional) objectName []"

text \<open>\<^verbatim>\<open>_.extend({}, registry[customMongooseProperty], registry[key])\<close>.\<close>

definition resolved :: "(string \<times> jsval) list \<Rightarrow> string \<Rightarrow> string \<Rightarrow> (string \<times> jsval) list" where
  "resolved registry mp key = assign (assign [] (lookup registry mp)) (lookup registry key)"

text \<open>One call of the callback of \<^verbatim>\<open>_.forEach(definitions, ...)\<close> in \<^verbatim>\<open>compile\<close>;
  \<open>mp\<close> is the constant \<^verbatim>\<open>customMongooseProperty\<close>.\<close>

definition compileDefinition ::
  "nat \<Rightarrow> env \<Rightarrow> string \<Rightarrow> session \<Rightarrow> jsval \<Rightarrow> (string \<times> schema) list
     \<Rightarrow> (session \<times> (string \<times> schema) list) res" where
  "compileDefinition n e mp s key schemas =
     (if nullish (getp (definitions s) (propKey key)) then Throw (TypeError NullishMember)
      else
        andThen
          (lift (if truthy (getp (getp (definitions s) (propKey key)) mp)
                 then processMongooseDefinition e s (propKey key)
                        (getp (getp (definitions s) (propKey key)) mp)
                 else Inr s))
          (\<lambda>s1.
             if truthy (lookup (excludeSchema s1) (propKey key)) then Ok (s1, schemas)
             else
               andThen (getSchema n s1 key (Reg [propKey key]))
                 (\<lambda>r.
                    if truthy (lookup (excludeSchema (fst r)) mp)
                       \<or> truthy (lookup (excludeSchema (fst r)) (propKey key))
                    then Ok (fst r, schemas)
                    else
                      andThen
                        (processAdditionalProperties n (fst r)
                           (Obj (resolved (additionalProperties (fst r)) mp (propKey key))) key)
                        (\<lambda>a.
                           Ok (processDocumentIndex (fst a) (propKey key),
                               upd schemas (propKey key)
                                 (Schema (Obj (assign (entries (snd r)) (snd a)))
                                    (Obj (resolved (schemaOptions (fst a)) mp (propKey key)))))))))"

fun compileDefinitions ::
  "nat \<Rightarrow> env \<Rightarrow> string \<Rightarrow> session \<Rightarrow> jsval list \<Rightarrow> (string \<times> schema) list
     \<Rightarrow> (session \<times> (string \<times> schema) list) res" where
  "compileDefinitions n e mp s [] schemas = Ok (s, schemas)"
| "compileDefinitions n e mp s (key # keys) schemas =
     (case compileDefinition n e mp s key schemas of
        OutOfFuel \<Rightarrow> OutOfFuel
      | Throw err \<Rightarrow> Throw err
      | Ok r \<Rightarrow> compileDefinitions n e mp (fst r) keys (snd r))"

definition registerModels :: "(string \<times> schema) list \<Rightarrow> (string \<times> model) list" where
  "registerModels schemas = map (\<lambda>ks. (fst ks, Model (fst ks) (snd ks))) schemas"

text \<open>\<open>compile n e s spec extra\<close>: the session the call finds is \<open>s\<close>; the result is the
  session it leaves and \<^verbatim>\<open>{schemas, models}\<close>.\<close>

definition compile ::
  "nat \<Rightarrow> env \<Rightarrow> session \<Rightarrow> specInput \<Rightarrow> jsval \<Rightarrow> (session \<times> compiled) res" where
  "compile n e s spec extraDefinitions =
     (if \<not> suppliedSpec spec then Throw SpecNotSupplied
      else
        andThen (lift (convertToJSON e spec))
          (\<lambda>swaggerJSON.
             if nullish swaggerJSON then Throw (TypeError NullishMember)
             else
               andThen
                 (lift (applyExtraDefinitions
                          (s\<lparr>swaggerVersionGe2 :=
                               (if truthy (getp swaggerJSON ''swagger'')
                                then numberGe2 e (getp swaggerJSON ''swagger'')
                                else swaggerVersionGe2 s)\<rparr>)
                          (getp swaggerJSON ''definitions'') extraDefinitions))
                 (\<lambda>applied.
                    let s1 = s\<lparr>swaggerVersionGe2 :=
                                  (if truthy (getp swaggerJSON ''swagger'')
                                   then numberGe2 e (getp swaggerJSON ''swagger'')
                                   else swaggerVersionGe2 s),
                                definitions := fst applied\<rparr>
                    in
                      andThen
                        (lift (if truthy (getp swaggerJSON (getMongooseProperty s1))
                               then processMongooseDefinition e s1 (getMongooseProperty s1)
                                      (getp swaggerJSON (getMongooseProperty s1))
                               else Inr s1))
                        (\<lambda>s2.
                           andThen
                             (compileDefinitions n e (getMongooseProperty s1) s2
                                (forEachKeys (definitions s2)) [])
                             (\<lambda>r. Ok (fst r, snd r, registerModels (snd r)))))))"

section \<open>Runs and example documents\<close>

text \<open>What a run returns, without the session it leaves.\<close>

fun result :: "('s \<times> 'a) res \<Rightarrow> 'a res" where
  "result (Ok r) = Ok (snd r)"
| "result (Throw e) = Throw e"
| "result OutOfFuel = OutOfFuel"


definition withDefinitions :: "jsval \<Rightarrow> session" where
  "withDefinitions defs = initialSession\<lparr>definitions := defs\<rparr>"

text \<open>An environment in which no module can be loaded, and one in which every module
  exports a validator under every name.\<close>

definition exampleEnv :: env where
  "exampleEnv =
     \<lparr>numberGe2 = (\<lambda>v. v = Str ''2.0''),
      jsonParse = (\<lambda>t. Inl (External ''JSON.parse'')),
      requireModule = (\<lambda>p. Inl (External ''Cannot find module''))\<rparr>"

fun validatorNamed :: "jsval \<Rightarrow> jsval" where
  "validatorNamed (Str name) = Fn name"
| "validatorNamed v = Undefined"

definition loadingEnv :: env where
  "loadingEnv =
     \<lparr>numberGe2 = (\<lambda>v. v = Str ''2.0''),
      jsonParse = (\<lambda>t. Inl (External ''JSON.parse'')),
      requireModule = (\<lambda>p. Inr validatorNamed)\<rparr>"

text \<open>The definitions \<^verbatim>\<open>House\<close> and \<^verbatim>\<open>Person\<close> of the example document that
  accompanies the source.\<close>

definition house :: jsval where
  "house =
     Obj [(''required'', Arr [Str ''lng'', Str ''lat''] []),
          (''properties'',
           Obj [(''description'', Obj [(''type'', Str ''string'')]),
                (''lng'', Obj [(''type'', Str ''double'')]),
                (''lat'', Obj [(''type'', Str ''double'')])])]"

definition person :: jsval where
  "person =
     Obj [(''required'', Arr [Str ''login''] []),
          (''properties'',
           Obj [(''login'', Obj [(''type'', Str ''string'')]),
                (''houses'',
                 Obj [(''type'', Str ''array''),
                      (''items'', Obj [(''$ref'', Str ''#/definitions/House'')])])])]"

definition personsDocument :: jsval where
  "personsDocument =
     Obj [(''swagger'', Str ''2.0''),
          (''definitions'', Obj [(''House'', house), (''Person'', person)])]"

definition compiledHouse :: jsval where
  "compiledHouse =
     Obj [(''description'', Obj [(''type'', Ctor SString)]),
          (''lng'', Obj [(''type'', Ctor SNumber), (''required'', Bool True)]),
          (''lat'', Obj [(''type'', Ctor SNumber), (''required'', Bool True)])]"

definition compiledPerson :: jsval where
  "compiledPerson =
     Obj [(''login'', Obj [(''type'', Ctor SString), (''required'', Bool True)]),
          (''houses'', Arr [compiledHouse] [])]"

text \<open>A registry whose one definition has the empty name and refers to itself, and one
  whose definition \<^verbatim>\<open>Node\<close> refers to itself.\<close>

definition selfEmpty :: jsval where
  "selfEmpty =
     Obj [('''',
           Obj [(''properties'', Obj [(''self'', Obj [(''$ref'', Str ''#/definitions/'')])])])]"

definition treeNode :: jsval where
  "treeNode =
     Obj [(''Node'',
           Obj [(''properties'',
                 Obj [(''parent'', Obj [(''$ref'', Str ''#/definitions/Node'')])])])]"



text \<open>A document without definitions whose global block names a validator module.\<close>

definition validatorsDocument :: jsval where
  "validatorsDocument = Obj [(''_mongoose'', Obj [(''validators'', Str ''./validators'')])]"

section \<open>Notions used in the statements\<close>

text \<open>Objects and arrays are the values that hold members.\<close>

fun container :: "jsval \<Rightarrow> bool" where
  "container (Obj kvs) = True"
| "container (Arr xs ex) = True"
| "container v = False"

text \<open>A member name that is not a decimal numeral is never an array index.\<close>

definition named :: "string \<Rightarrow> bool" where
  "named k = (\<not> set k \<subseteq> set ''0123456789'')"





text \<open>An object all of whose member names are in \<open>K\<close>.\<close>

definition within :: "string set \<Rightarrow> jsval \<Rightarrow> bool" where
  "within K p = (\<exists>kvs. p = Obj kvs \<and> fst ` set kvs \<subseteq> K)"

text \<open>A schema handle or model handle built from a property map without the reserved
  names \<^verbatim>\<open>_id\<close> and \<^verbatim>\<open>__v\<close>.\<close>

fun cleanSchema :: "schema \<Rightarrow> bool" where
  "cleanSchema (Schema object options) =
     (''_id'' \<notin> fst ` set (entries object) \<and> ''__v'' \<notin> fst ` set (entries object))"

fun cleanModel :: "model \<Rightarrow> bool" where
  "cleanModel (Model name sch) = cleanSchema sch"

text \<open>A document that declares \<^verbatim>\<open>_id\<close> and \<^verbatim>\<open>__v\<close> among the properties of
  a definition and \<^verbatim>\<open>_id\<close> among its additional properties.\<close>

definition reservedDocument :: jsval where
  "reservedDocument =
     Obj [(''definitions'',
           Obj [(''User'',
                 Obj [(''_mongoose'',
                       Obj [(''additional-properties'',
                             Obj [(''_id'', Obj [(''type'', Str ''string'')]),
                                  (''age'', Obj [(''type'', Str ''integer'')])])]),
                      (''properties'',
                       Obj [(''_id'', Obj [(''type'', Str ''string'')]),
                            (''name'', Obj [(''type'', Str ''string'')]),
                            (''__v'', Obj [(''type'', Str ''integer'')])])])])]"

definition compiledUser :: schema where
  "compiledUser =
     Schema (Obj [(''name'', Obj [(''type'', Ctor SString)]),
                  (''age'', Obj [(''type'', Ctor SNumber)])])
       (Obj [])"

definition reservedFree :: "jsval \<Rightarrow> bool" where
  "reservedFree v = (''_id'' \<notin> fst ` set (entries v) \<and> ''__v'' \<notin> fst ` set (entries v))"



text \<open>The registries that in-place merges lead to.\<close>

inductive rew :: "jsval \<Rightarrow> jsval \<Rightarrow> bool" where
  rew_refl: "rew d d"
| rew_step: "rew d d1 \<Longrightarrow> p \<noteq> [] \<Longrightarrow> processPolymorphic d1 (get_path d1 p) = Inr x
               \<Longrightarrow> rew d (set_path d1 p x)"

definition frame :: "session \<Rightarrow> session \<Rightarrow> bool" where
  "frame s s' = (s' = s\<lparr>definitions := definitions s'\<rparr> \<and> rew (definitions s) (definitions s'))"

fun wfnode :: "node \<Rightarrow> bool" where
  "wfnode (Reg p) = (p \<noteq> [])"
| "wfnode n = True"




text \<open>An object that lodash enumerates by the names of its own members: it has no numeric
  \<^verbatim>\<open>length\<close>.\<close>

fun plain :: "jsval \<Rightarrow> bool" where
  "plain (Obj kvs) = (forEachKeys (Obj kvs) = map (\<lambda>kv. Str (fst kv)) kvs)"
| "plain v = False"



section \<open>Properties of the Type Mapper\<close>

definition scalarKinds :: "jsval set" where
  "scalarKinds =
     {Str ''integer'', Str ''long'', Str ''float'', Str ''double'', Str ''string'',
      Str ''password'', Str ''boolean'', Str ''date'', Str ''dateTime''}"

lemma propertyMap_kind:
  "\<not> nullish p \<Longrightarrow> getp p ''type'' = t \<Longrightarrow>
   propertyMap p =
     (if t = Str ''number'' then
        (if getp p ''format'' \<in> numericFormats then Inr (Ctor SNumber)
         else Inl (UnrecognisedFormat (getp p ''format'')))
      else if t \<in> numericFormats then Inr (Ctor SNumber)
      else if t \<in> {Str ''string'', Str ''password''} then Inr (Ctor SString)
      else if t = Str ''boolean'' then Inr (Ctor SBoolean)
      else if t \<in> {Str ''date'', Str ''dateTime''} then Inr (Ctor SDate)
      else if t = Str ''array'' then
        (case propertyMap (getp p ''items'') of Inl e \<Rightarrow> Inl e | Inr t \<Rightarrow> Inr (Arr [t] []))
      else Inl (UnrecognizedType t))"
  by (subst propertyMap.simps) simp

lemma kind_not_nullish: "getp p k = Str s \<Longrightarrow> \<not> nullish p"
  by (cases p) auto

text \<open>
  Claim C1.  The Type Mapper is a function of the descriptor alone (it reads no state and
  writes none).  A descriptor of kind integer, long, float or double, or of kind number
  with one of these four as its format, is mapped to the numeric storage type; string and
  password to the string type; boolean to the boolean type; date and dateTime to the date
  type; an array to the one-element array of the type its items are mapped to (an error
  of the items is the error of the array).  Kind number with any other format fails with
  the unrecognised-format error, and every other kind of a descriptor fails with the
  unrecognized-type error.
\<close>

theorem propertyMap_cases:
  "(getp p ''type'' \<in> numericFormats \<longrightarrow> propertyMap p = Inr (Ctor SNumber)) \<and>
   (getp p ''type'' = Str ''number'' \<and> getp p ''format'' \<in> numericFormats
      \<longrightarrow> propertyMap p = Inr (Ctor SNumber)) \<and>
   (getp p ''type'' \<in> {Str ''string'', Str ''password''} \<longrightarrow> propertyMap p = Inr (Ctor SString)) \<and>
   (getp p ''type'' = Str ''boolean'' \<longrightarrow> propertyMap p = Inr (Ctor SBoolean)) \<and>
   (getp p ''type'' \<in> {Str ''date'', Str ''dateTime''} \<longrightarrow> propertyMap p = Inr (Ctor SDate)) \<and>
   (getp p ''type'' = Str ''array'' \<longrightarrow>
      (\<forall>t. propertyMap (getp p ''items'') = Inr t \<longrightarrow> propertyMap p = Inr (Arr [t] [])) \<and>
      (\<forall>e. propertyMap (getp p ''items'') = Inl e \<longrightarrow> propertyMap p = Inl e)) \<and>
   (getp p ''type'' = Str ''number'' \<and> getp p ''format'' \<notin> numericFormats
      \<longrightarrow> propertyMap p = Inl (UnrecognisedFormat (getp p ''format''))) \<and>
   (\<not> nullish p \<and> getp p ''type'' \<notin> insert (Str ''number'') (insert (Str ''array'') scalarKinds)
      \<longrightarrow> propertyMap p = Inl (UnrecognizedType (getp p ''type'')))"
proof -
  have numeric: "getp p ''type'' \<in> numericFormats \<Longrightarrow> propertyMap p = Inr (Ctor SNumber)"
    using propertyMap_kind [of p "getp p ''type''"] kind_not_nullish [of p "''type''"]
    by (auto simp: numericFormats_def)
  have number: "getp p ''type'' = Str ''number'' \<Longrightarrow>
      propertyMap p = (if getp p ''format'' \<in> numericFormats then Inr (Ctor SNumber)
                       else Inl (UnrecognisedFormat (getp p ''format'')))"
    using propertyMap_kind [of p "Str ''number''"] kind_not_nullish [of p "''type''"]
    by simp
  have str: "getp p ''type'' \<in> {Str ''string'', Str ''password''} \<Longrightarrow> propertyMap p = Inr (Ctor SString)"
    using propertyMap_kind [of p "getp p ''type''"] kind_not_nullish [of p "''type''"]
    by (auto simp: numericFormats_def)
  have boolean: "getp p ''type'' = Str ''boolean'' \<Longrightarrow> propertyMap p = Inr (Ctor SBoolean)"
    using propertyMap_kind [of p "Str ''boolean''"] kind_not_nullish [of p "''type''"]
    by (simp add: numericFormats_def)
  have date: "getp p ''type'' \<in> {Str ''date'', Str ''dateTime''} \<Longrightarrow> propertyMap p = Inr (Ctor SDate)"
    using propertyMap_kind [of p "getp p ''type''"] kind_not_nullish [of p "''type''"]
    by (auto simp: numericFormats_def)
  have array: "getp p ''type'' = Str ''array'' \<Longrightarrow>
      propertyMap p = (case propertyMap (getp p ''items'') of Inl e \<Rightarrow> Inl e | Inr t \<Rightarrow> Inr (Arr [t] []))"
    using propertyMap_kind [of p "Str ''array''"] kind_not_nullish [of p "''type''"]
    by (simp add: numericFormats_def)
  have other: "\<not> nullish p \<Longrightarrow>
      getp p ''type'' \<notin> insert (Str ''number'') (insert (Str ''array'') scalarKinds) \<Longrightarrow>
      propertyMap p = Inl (UnrecognizedType (getp p ''type''))"
    using propertyMap_kind [of p "getp p ''type''"]
    by (simp add: numericFormats_def scalarKinds_def)
  show ?thesis
    using numeric number str boolean date array other by simp
qed

theorem propertyMap_cases_witness:
  "propertyMap (Obj [(''type'', Str ''array''),
                     (''items'', Obj [(''type'', Str ''number''), (''format'', Str ''double'')])])
     = Inr (Arr [Ctor SNumber] []) \<and>
   propertyMap (Obj [(''type'', Str ''number''), (''format'', Str ''int32'')])
     = Inl (UnrecognisedFormat (Str ''int32'')) \<and>
   propertyMap (Obj [(''type'', Str ''file'')]) = Inl (UnrecognizedType (Str ''file'')) \<and>
   propertyMap (Obj [(''type'', Str ''dateTime'')]) = Inr (Ctor SDate)"
proof -
  let ?items = "Obj [(''type'', Str ''number''), (''format'', Str ''double'')]"
  let ?arr = "Obj [(''type'', Str ''array''), (''items'', ?items)]"
  have items: "propertyMap ?items = Inr (Ctor SNumber)"
    using propertyMap_cases [of ?items] by (simp add: lookup_def numericFormats_def)
  have "getp ?arr ''items'' = ?items" by (simp add: lookup_def)
  with items have arr: "propertyMap ?arr = Inr (Arr [Ctor SNumber] [])"
    using propertyMap_cases [of ?arr] by (simp add: lookup_def)
  have fmt: "propertyMap (Obj [(''type'', Str ''number''), (''format'', Str ''int32'')])
     = Inl (UnrecognisedFormat (Str ''int32''))"
    using propertyMap_cases [of "Obj [(''type'', Str ''number''), (''format'', Str ''int32'')]"]
    by (simp add: lookup_def numericFormats_def)
  have unknown: "propertyMap (Obj [(''type'', Str ''file'')]) = Inl (UnrecognizedType (Str ''file''))"
    using propertyMap_cases [of "Obj [(''type'', Str ''file'')]"]
    by (simp add: lookup_def scalarKinds_def)
  have dt: "propertyMap (Obj [(''type'', Str ''dateTime'')]) = Inr (Ctor SDate)"
    using propertyMap_cases [of "Obj [(''type'', Str ''dateTime'')]"]
    by (simp add: lookup_def)
  show ?thesis using arr fmt unknown dt by simp
qed

section \<open>Assignment to members\<close>

lemma lookup_upd: "lookup (upd kvs k v) k' = (if k' = k then v else lookup kvs k')"
  by (induction kvs) (auto simp: lookup_def)

lemma upd_upd: "upd (upd kvs k v) k w = upd kvs k w"
  by (induction kvs) auto

lemma keys_upd: "fst ` set (upd kvs k v) = insert k (fst ` set kvs)"
proof (induction kvs)
  case Nil
  show ?case by simp
next
  case (Cons a kvs)
  obtain k' v' where a: "a = (k', v')" by (cases a)
  show ?case
  proof (cases "k' = k")
    case True
    then show ?thesis using a by simp
  next
    case False
    then show ?thesis using a Cons by (simp add: insert_commute)
  qed
qed

section \<open>Properties of the Reference Resolver\<close>

lemma fillRequired_circular:
  assumes "propKey key = k"
  shows "\<exists>d. fillRequired (Obj (upd kvs k (circularRef D))) key required = Inr (Obj (upd kvs k d))
           \<and> getp d ''type'' = Ctor SObjectId \<and> getp d ''ref'' = Str D"
proof -
  let ?c = "circularRef D"
  have set: "setMember (Obj (upd kvs k ?c)) key ''required'' v
      = Inr (Obj (upd kvs k (putp ?c ''required'' v)))" for v
    using assms by (simp add: setMember_def setp_def lookup_upd upd_upd circularRef_def)
  have c: "getp ?c ''type'' = Ctor SObjectId \<and> getp ?c ''ref'' = Str D"
    by (simp add: circularRef_def lookup_def)
  have p: "getp (putp ?c ''required'' v) ''type'' = Ctor SObjectId
         \<and> getp (putp ?c ''required'' v) ''ref'' = Str D" for v
    by (simp add: circularRef_def lookup_def)
  show ?thesis
    unfolding fillRequired_def using set c p by auto
qed

text \<open>
  Claim C2 as it is stated fails for a definition whose name is the empty string: the
  guard \<^verbatim>\<open>else if (propType)\<close> of \<^verbatim>\<open>processRef\<close> is false for the empty target name,
  so the self-referential field \<^verbatim>\<open>self\<close> is compiled to nothing at all.
\<close>

theorem self_reference_empty_name:
  "result (getSchema 4 (withDefinitions selfEmpty) (Str '''') (Reg [''''])) = Ok (Obj [])"
  by code_simp

text \<open>
  Claim C2, amended.  For every definition name \<open>D\<close> that is not empty and every property
  whose reference (its own or that of its array items) ends in \<open>D\<close>, the Reference
  Resolver called with \<open>D\<close> as the owning definition makes no nested call (depth one is
  enough, whatever the registry holds), leaves the session as it is and binds the field
  to a descriptor whose type is the ObjectId storage type and whose \<^verbatim>\<open>ref\<close> is \<open>D\<close>.
\<close>

theorem processRef_circular:
  assumes "refTarget (nval s property) = Inr D"
    and "\<not> nullish (nval s property)"
    and "D \<noteq> []"
  shows "\<exists>d. processRef (Suc n) s property (Str D) (Obj kvs) key required
            = Ok (s, Obj (upd kvs (propKey key) d))
          \<and> getp d ''type'' = Ctor SObjectId \<and> getp d ''ref'' = Str D"
proof -
  obtain d where d: "fillRequired (Obj (upd kvs (propKey key) (circularRef D))) key required
        = Inr (Obj (upd kvs (propKey key) d))"
      "getp d ''type'' = Ctor SObjectId" "getp d ''ref'' = Str D"
    using fillRequired_circular [of key "propKey key" kvs D required] by auto
  have "processRef (Suc n) s property (Str D) (Obj kvs) key required
        = Ok (s, Obj (upd kvs (propKey key) d))"
    using assms d(1) by (simp add: store_def setp_def finishRef_def)
  with d show ?thesis by blast
qed

theorem processRef_circular_witness:
  "\<exists>d. processRef (Suc 0) (withDefinitions treeNode) (Reg [''Node'', ''properties'', ''parent''])
          (Str ''Node'') (Obj []) (Str ''parent'') (Arr [] [])
        = Ok (withDefinitions treeNode, Obj (upd [] (propKey (Str ''parent'')) d))
      \<and> getp d ''type'' = Ctor SObjectId \<and> getp d ''ref'' = Str ''Node''"
proof -
  let ?s = "withDefinitions treeNode"
  let ?p = "Reg [''Node'', ''properties'', ''parent'']"
  have v: "nval ?s ?p = Obj [(''$ref'', Str ''#/definitions/Node'')]"
    by (simp add: withDefinitions_def treeNode_def lookup_def)
  have t: "refTarget (nval ?s ?p) = Inr ''Node''"
    unfolding v by code_simp
  have n: "\<not> nullish (nval ?s ?p)"
    unfolding v by simp
  show ?thesis
    using processRef_circular [OF t n, of 0 "[]" "Str ''parent''" "Arr [] []"] by simp
qed

text \<open>
  Claim C8.  A reference string that is not \<^verbatim>\<open>#/definitions/\<close> followed by word
  characters only makes the Reference Resolver fail at once, before any nested call and
  whatever the registry holds: the pattern match yields \<^verbatim>\<open>null\<close> and reading its
  capture group raises (the MalformedReference failure of the specification is this
  TypeError).
\<close>

theorem processRef_malformed:
  assumes "refStringOf (nval s property) = Inr (Str r)"
    and "\<not> nullish (nval s property)"
    and "\<not> (\<exists>w. r = ''#/definitions/'' @ w \<and> list_all is_word w)"
  shows "processRef (Suc n) s property objectName props key required = Throw (TypeError NullMatch)"
proof -
  have "refRegExp r = None"
  proof (rule ccontr)
    assume "refRegExp r \<noteq> None"
    then have "take 14 r = ''#/definitions/''" and "list_all is_word (drop 14 r)"
      by (auto simp: refRegExp_def split: if_splits)
    then have "r = ''#/definitions/'' @ drop 14 r \<and> list_all is_word (drop 14 r)"
      by (metis append_take_drop_id)
    with assms(3) show False by blast
  qed
  then have "refTarget (nval s property) = Inl (TypeError NullMatch)"
    using assms(1) by (simp add: refTarget_def)
  then show ?thesis using assms(2) by simp
qed

theorem processRef_malformed_witness:
  "processRef (Suc 0) initialSession (Det (Obj [(''$ref'', Str ''#/components/schemas/House'')]))
     (Str ''Person'') (Obj []) (Str ''house'') (Arr [] [])
   = Throw (TypeError NullMatch)"
proof -
  let ?p = "Det (Obj [(''$ref'', Str ''#/components/schemas/House'')])"
  have r: "refStringOf (nval initialSession ?p) = Inr (Str ''#/components/schemas/House'')"
    by (simp add: refStringOf_def lookup_def)
  have n: "\<not> nullish (nval initialSession ?p)"
    by simp
  have m: "\<not> (\<exists>w. ''#/components/schemas/House'' = ''#/definitions/'' @ w \<and> list_all is_word w)"
    by simp
  show ?thesis
    by (rule processRef_malformed [OF r n m])
qed

section \<open>The example document\<close>

text \<open>
  Claim C5.  With the definitions \<^verbatim>\<open>House\<close> and \<^verbatim>\<open>Person\<close> in the registry,
  compiling \<^verbatim>\<open>Person\<close> binds \<^verbatim>\<open>houses\<close> to a one-element array that holds the
  compiled property map of \<^verbatim>\<open>House\<close> (\<^verbatim>\<open>lng\<close> and \<^verbatim>\<open>lat\<close> numeric and required,
  \<^verbatim>\<open>description\<close> a string without a required facet), and \<^verbatim>\<open>login\<close> to the string
  type with \<^verbatim>\<open>required: true\<close>.
\<close>

theorem person_embeds_house:
  "result (getSchema 6 (withDefinitions (getp personsDocument ''definitions''))
             (Str ''Person'') (Reg [''Person'']))
   = Ok (Obj [(''login'', Obj [(''type'', Ctor SString), (''required'', Bool True)]),
              (''houses'',
               Arr [Obj [(''description'', Obj [(''type'', Ctor SString)]),
                         (''lng'', Obj [(''type'', Ctor SNumber), (''required'', Bool True)]),
                         (''lat'', Obj [(''type'', Ctor SNumber), (''required'', Bool True)])]]
                   [])])"
  by code_simp

lemma persons_document_compiled:
  "result (compile 7 exampleEnv initialSession (Value personsDocument) Undefined)
   = Ok ([(''House'', Schema compiledHouse (Obj [])),
          (''Person'', Schema compiledPerson (Obj []))],
         [(''House'', Model ''House'' (Schema compiledHouse (Obj []))),
          (''Person'', Model ''Person'' (Schema compiledPerson (Obj [])))])"
  by code_simp

section \<open>Properties of the Compilation Session\<close>





text \<open>
  Claim C10 as it is stated fails: a document without definitions whose global extension
  block names a validator module that cannot be loaded makes \<^verbatim>\<open>compile\<close> raise.
\<close>

theorem missing_validators_raises:
  "result (compile 5 exampleEnv initialSession (Value validatorsDocument) Undefined)
   = Throw (External ''Cannot find module'')"
  by code_simp

text \<open>
  Claim C10, amended.  For every input that decodes to a document without a definitions
  entry, \<^verbatim>\<open>compile\<close> without extra definitions returns empty schemas and empty models,
  at every depth bound and from every session, provided that the validator module named
  by the document's global extension block, if there is one, can be loaded.
\<close>

theorem compile_no_definitions:
  assumes "suppliedSpec spec" and "convertToJSON e spec = Inr doc" and "\<not> nullish doc"
    and "getp doc ''definitions'' = Undefined"
    and "\<forall>mp \<in> {v1MongooseProperty, v2MongooseProperty}.
           truthy (getp (getp doc mp) ''validators'')
             \<longrightarrow> (\<exists>m. requireModule e (getp (getp doc mp) ''validators'') = Inr m)"
  shows "result (compile n e s spec Undefined) = Ok ([], [])"
proof -
  define s1 where "s1 = s\<lparr>swaggerVersionGe2 :=
       (if truthy (getp doc ''swagger'') then numberGe2 e (getp doc ''swagger'')
        else swaggerVersionGe2 s), definitions := Undefined\<rparr>"
  define mp where "mp = getMongooseProperty s1"
  have mp: "mp \<in> {v1MongooseProperty, v2MongooseProperty}"
    by (simp add: mp_def getMongooseProperty_def)
  have "\<exists>s2. (if truthy (getp doc mp) then processMongooseDefinition e s1 mp (getp doc mp)
              else Inr s1) = Inr s2 \<and> definitions s2 = Undefined"
  proof (cases "truthy (getp doc mp) \<and> truthy (getp (getp doc mp) ''validators'')")
    case True
    then obtain m where "requireModule e (getp (getp doc mp) ''validators'') = Inr m"
      using assms(5) mp by blast
    then show ?thesis using True
      by (simp add: processMongooseDefinition_def Let_def s1_def)
  next
    case False
    then show ?thesis
      by (auto simp: processMongooseDefinition_def Let_def s1_def)
  qed
  then obtain s2 where s2:
    "(if truthy (getp doc mp) then processMongooseDefinition e s1 mp (getp doc mp) else Inr s1)
       = Inr s2"
    "definitions s2 = Undefined" by blast
  have unfolded: "compile n e s spec Undefined =
      andThen (lift (if truthy (getp doc mp) then processMongooseDefinition e s1 mp (getp doc mp)
                     else Inr s1))
        (\<lambda>s2. andThen (compileDefinitions n e mp s2 (forEachKeys (definitions s2)) [])
                (\<lambda>r. Ok (fst r, snd r, registerModels (snd r))))"
    using assms(1-4)
    by (simp add: compile_def applyExtraDefinitions_def Let_def flip: s1_def mp_def)
  have "compile n e s spec Undefined = Ok (s2, [], [])"
    unfolding unfolded s2(1) by (simp add: s2(2) registerModels_def)
  then show ?thesis by simp
qed

theorem compile_no_definitions_witness:
  "result (compile 0 loadingEnv initialSession (Value validatorsDocument) Undefined) = Ok ([], [])"
proof -
  have a: "suppliedSpec (Value validatorsDocument)"
    by (simp add: validatorsDocument_def)
  have b: "convertToJSON loadingEnv (Value validatorsDocument) = Inr validatorsDocument"
    by (simp add: validatorsDocument_def)
  have c: "\<not> nullish validatorsDocument"
    by (simp add: validatorsDocument_def)
  have d: "getp validatorsDocument ''definitions'' = Undefined"
    by (simp add: validatorsDocument_def lookup_def)
  have l: "\<forall>mp \<in> {v1MongooseProperty, v2MongooseProperty}.
           truthy (getp (getp validatorsDocument mp) ''validators'')
             \<longrightarrow> (\<exists>m. requireModule loadingEnv (getp (getp validatorsDocument mp) ''validators'')
                        = Inr m)"
    by (simp add: loadingEnv_def)
  show ?thesis
    using compile_no_definitions [OF a b c d l] by simp
qed

section \<open>Properties of the Polymorphism Merger\<close>

lemma arrIndex_named: "named k \<Longrightarrow> arrIndex n k = None"
  using show_nat_digits by (intro arrIndex_None) (auto simp: named_def)

lemma named_not_length: "named k \<Longrightarrow> k \<noteq> ''length'' \<Longrightarrow> getp (Str s) k = Undefined"
  by (simp add: arrIndex_named)




lemma container_putp [simp]: "container (putp v k x) = container v"
  by (cases v) auto

lemma container_delp [simp]: "container (delp v k) = container v"
  by (cases v) auto

lemma named_keys [simp]:
  "named ''properties''" "named ''required''" "named ''allOf''" "named ''default''"
  "named ''type''" "named ''ref''" "named ''x-swagger-mongoose''" "named ''_mongoose''"
  "named ''exclude-schema''" "named ''schema-options''" "named ''timestamps''"
  by (simp_all add: named_def)
















lemma lookup_Undefined: "k \<notin> fst ` set kvs \<Longrightarrow> lookup kvs k = Undefined"
  using map_of_eq_None_iff [of kvs k] by (simp add: lookup_def)






section \<open>Reserved field names\<close>

lemma andThen_Ok_iff: "andThen m f = Ok y \<longleftrightarrow> (\<exists>x. m = Ok x \<and> f x = Ok y)"
  by (cases m) auto

lemma lift_Ok_iff: "lift m = Ok x \<longleftrightarrow> m = Inr x"
  by (cases m) auto

lemma bindE_Inr_iff: "bindE m f = Inr y \<longleftrightarrow> (\<exists>x. m = Inr x \<and> f x = Inr y)"
  by (cases m) auto

lemma within_mono: "within K p \<Longrightarrow> K \<subseteq> L \<Longrightarrow> within L p"
  by (auto simp: within_def)

lemma within_upd: "within K (Obj kvs) \<Longrightarrow> within (insert k K) (Obj (upd kvs k v))"
  unfolding within_def using keys_upd [of kvs k v] by auto

lemma setp_within:
  assumes "setp p k v = Inr p'" and "within K p"
  shows "within (insert k K) p'"
proof -
  from assms(2) obtain kvs where p: "p = Obj kvs" by (auto simp: within_def)
  with assms(1) have "p' = Obj (upd kvs k v)" by (simp add: setp_def)
  with assms(2) p show ?thesis using within_upd by simp
qed

lemma setMember_within:
  "setMember p key m v = Inr p' \<Longrightarrow> within K p \<Longrightarrow> within (insert (propKey key) K) p'"
  by (auto simp: setMember_def bindE_Inr_iff dest: setp_within)

lemma fillRequired_within:
  assumes "fillRequired p key t = Inr p'" and "within K p"
  shows "within (insert (propKey key) K) p'"
proof -
  from assms(1) have "p' = p \<or> (\<exists>v. setMember p key ''required'' v = Inr p')"
    by (auto simp: fillRequired_def split: if_splits)
  then show ?thesis
    using assms(2) setMember_within within_mono [of K p "insert (propKey key) K"] by blast
qed

lemma store_within:
  assumes "store p key s v = Ok (s', p')" and "within K p"
  shows "within (insert (propKey key) K) p'"
proof -
  from assms(1) have "setp p (propKey key) v = Inr p'"
    by (auto simp: store_def andThen_Ok_iff lift_Ok_iff)
  then show ?thesis using assms(2) by (rule setp_within)
qed

lemma finishRef_within:
  "finishRef key t sp = Ok (s', p') \<Longrightarrow> within K (snd sp) \<Longrightarrow> within (insert (propKey key) K) p'"
  by (auto simp: finishRef_def andThen_Ok_iff lift_Ok_iff dest: fillRequired_within)

lemma finishProperty_within:
  assumes "finishProperty node key t sp = Ok (s', p')" and "within K (snd sp)"
  shows "within (insert (propKey key) K) p'"
proof -
  from assms(1) obtain p1 where
    1: "(if truthy t then fillRequired (snd sp) key t else Inr (snd sp)) = Inr p1"
    and 2: "(if nmember (fst sp) node ''default'' \<noteq> Undefined
             then setMember p1 key ''default'' (nmember (fst sp) node ''default'')
             else Inr p1) = Inr p'"
    by (auto simp: finishProperty_def andThen_Ok_iff lift_Ok_iff)
  from 1 assms(2) have "within (insert (propKey key) K) p1"
    by (auto split: if_splits dest: fillRequired_within intro: within_mono)
  with 2 show ?thesis
    by (auto split: if_splits dest: setMember_within)
qed

lemma within_single: "within {propKey key} (single key v)"
  by (simp add: within_def single_def)

lemma within_empty: "within K (Obj [])"
  by (simp add: within_def)

lemma leafProperty_within:
  assumes "leafProperty s node key b = Ok (s', p)"
  shows "within {propKey key} p"
proof -
  from assms have "(\<exists>v. p = single key v) \<or> p = Obj []"
    by (cases b) (auto simp: leafProperty_def andThen_Ok_iff lift_Ok_iff)
  then show ?thesis using within_single within_empty by auto
qed

lemma processRef_within:
  assumes "processRef n s node objectName props key t = Ok (s', p)" and "within K props"
  shows "within (insert (propKey key) K) p"
proof (cases n)
  case 0
  with assms show ?thesis by simp
next
  case (Suc m)
  from assms(1) obtain sp where sp: "finishRef key t sp = Ok (s', p)"
    and w: "snd sp = props \<or> (\<exists>s1 v. store props key s1 v = Ok sp)"
    unfolding Suc
    by (auto simp: andThen_Ok_iff lift_Ok_iff split: if_splits)
  from w have "within (insert (propKey key) K) (snd sp)"
  proof
    assume "snd sp = props"
    then show ?thesis using assms(2) within_mono by blast
  next
    assume "\<exists>s1 v. store props key s1 v = Ok sp"
    then obtain s1 v where "store props key s1 v = Ok (fst sp, snd sp)" by auto
    then show ?thesis using assms(2) by (rule store_within)
  qed
  from finishRef_within [OF sp this] show ?thesis by simp
qed

lemma getSchemaProperty_shape:
  assumes "getSchemaProperty n s node key t objectName = Ok (s', p)"
  shows "if isMongodbReserved key then p = Undefined else within {propKey key} p"
proof (cases n)
  case 0
  with assms show ?thesis by simp
next
  case (Suc m)
  show ?thesis
  proof (cases "isMongodbReserved key")
    case True
    with assms Suc show ?thesis by simp
  next
    case False
    from assms False have "\<exists>sp. finishProperty node key t sp = Ok (s', p)
          \<and> ((\<exists>s0. processRef m s0 node objectName (Obj []) key t = Ok sp)
            \<or> (\<exists>v. snd sp = single key v) \<or> (\<exists>s0 b. leafProperty s0 node key b = Ok sp))"
      unfolding Suc
      apply (auto simp: andThen_Ok_iff lift_Ok_iff split: if_splits)
         apply (metis snd_conv)+
      done
    then obtain sp where sp: "finishProperty node key t sp = Ok (s', p)"
      and w: "(\<exists>s0. processRef m s0 node objectName (Obj []) key t = Ok sp)
            \<or> (\<exists>v. snd sp = single key v) \<or> (\<exists>s0 b. leafProperty s0 node key b = Ok sp)"
      by blast
    from w have "within {propKey key} (snd sp)"
    proof (elim disjE exE)
      fix s0 assume "processRef m s0 node objectName (Obj []) key t = Ok sp"
      then have "processRef m s0 node objectName (Obj []) key t = Ok (fst sp, snd sp)" by simp
      from processRef_within [OF this within_empty [of "{}"]] show ?thesis by simp
    next
      fix v assume "snd sp = single key v"
      then show ?thesis using within_single by simp
    next
      fix s0 b assume "leafProperty s0 node key b = Ok sp"
      then have "leafProperty s0 node key b = Ok (fst sp, snd sp)" by simp
      then show ?thesis by (rule leafProperty_within)
    qed
    from finishProperty_within [OF sp this] False show ?thesis by simp
  qed
qed

lemma propKey_reserved: "propKey key \<in> {''_id'', ''__v''} \<Longrightarrow> isMongodbReserved key"
proof (cases key)
  case (Num i)
  assume "propKey key \<in> {''_id'', ''__v''}"
  then show ?thesis using Num show_nat_digits [of "nat i"] by auto
qed (auto simp: isMongodbReserved_def)

lemma keys_foldl_upd:
  "fst ` set (foldl (\<lambda>d kv. upd d (fst kv) (snd kv)) m es) = fst ` set m \<union> fst ` set es"
proof (induction es arbitrary: m)
  case Nil
  show ?case by simp
next
  case (Cons e es)
  show ?case using Cons [of "upd m (fst e) (snd e)"] keys_upd [of m "fst e" "snd e"] by auto
qed

lemma keys_assign: "fst ` set (assign m p) = fst ` set m \<union> fst ` set (entries p)"
  by (simp add: assign_def keys_foldl_upd)

lemma getSchemaProperty_keys:
  assumes "getSchemaProperty n s node key t objectName = Ok (s', p)"
  shows "fst ` set (entries p) \<subseteq> {propKey key} - {''_id'', ''__v''}"
proof (cases "isMongodbReserved key")
  case True
  with getSchemaProperty_shape [OF assms] show ?thesis by simp
next
  case False
  with getSchemaProperty_shape [OF assms] have "within {propKey key} p" by simp
  moreover have "propKey key \<notin> {''_id'', ''__v''}" using False propKey_reserved by blast
  ultimately show ?thesis by (force simp: within_def image_subset_iff)
qed

lemma getSchemaLoop_keys:
  "getSchemaLoop n s object keys t objectName props = Ok (s', r) \<Longrightarrow>
   \<exists>kvs. r = Obj kvs \<and> fst ` set kvs \<subseteq> fst ` set props \<union> (UNIV - {''_id'', ''__v''})"
proof (induction keys arbitrary: s props)
  case Nil
  then show ?case by auto
next
  case (Cons key keys)
  from Cons.prems obtain s1 p where
    1: "getSchemaProperty n s (nchild object (propKey key)) key t objectName = Ok (s1, p)"
    and 2: "getSchemaLoop n s1 object keys t objectName (assign props p) = Ok (s', r)"
    by (auto simp: andThen_Ok_iff)
  from Cons.IH [OF 2] obtain kvs where kvs: "r = Obj kvs"
    "fst ` set kvs \<subseteq> fst ` set (assign props p) \<union> (UNIV - {''_id'', ''__v''})" by blast
  have "fst ` set (assign props p) \<subseteq> fst ` set props \<union> (UNIV - {''_id'', ''__v''})"
    using getSchemaProperty_keys [OF 1] by (auto simp: keys_assign)
  with kvs show ?case by blast
qed

lemma getSchema_reservedFree:
  assumes "getSchema n s objectName node = Ok (s', r)"
  shows "\<exists>kvs. r = Obj kvs \<and> reservedFree r"
proof (cases n)
  case 0
  with assms show ?thesis by simp
next
  case (Suc m)
  from assms obtain s1 object keys t where
    "getSchemaLoop m s1 object keys t objectName [] = Ok (s', r)"
    unfolding Suc by (auto simp: andThen_Ok_iff split: if_splits)
  from getSchemaLoop_keys [OF this] show ?thesis
    by (force simp: reservedFree_def image_subset_iff)
qed

lemma processAdditionalPropertiesLoop_keys:
  "processAdditionalPropertiesLoop n s additional keys objectName props = Ok (s', r) \<Longrightarrow>
   \<exists>kvs. r = Obj kvs \<and> fst ` set kvs \<subseteq> fst ` set props \<union> (UNIV - {''_id'', ''__v''})"
proof (induction keys arbitrary: s props)
  case Nil
  then show ?case by auto
next
  case (Cons key keys)
  from Cons.prems obtain s1 p where
    1: "getSchemaProperty n s (Det (Obj [(getMongooseProperty s, getp additional (propKey key))]))
          key (getp (getp additional (propKey key)) ''required'') objectName = Ok (s1, p)"
    and 2: "processAdditionalPropertiesLoop n s1 additional keys objectName (assign props p)
              = Ok (s', r)"
    by (auto split: if_splits res.splits)
  from Cons.IH [OF 2] obtain kvs where kvs: "r = Obj kvs"
    "fst ` set kvs \<subseteq> fst ` set (assign props p) \<union> (UNIV - {''_id'', ''__v''})" by blast
  have "fst ` set (assign props p) \<subseteq> fst ` set props \<union> (UNIV - {''_id'', ''__v''})"
    using getSchemaProperty_keys [OF 1] by (auto simp: keys_assign)
  with kvs show ?case by blast
qed

lemma result_Ok_iff: "result m = Ok x \<longleftrightarrow> (\<exists>s. m = Ok (s, x))"
  by (cases m) auto

lemma set_upd_subset: "set (upd kvs k v) \<subseteq> insert (k, v) (set kvs)"
proof (induction kvs)
  case Nil
  show ?case by simp
next
  case (Cons a kvs)
  then show ?case by (cases a) auto
qed

lemma processAdditionalProperties_keys:
  "processAdditionalProperties n s additional objectName = Ok (s', r) \<Longrightarrow>
   \<exists>kvs. r = Obj kvs \<and> fst ` set kvs \<subseteq> UNIV - {''_id'', ''__v''}"
  unfolding processAdditionalProperties_def
  using processAdditionalPropertiesLoop_keys [of n s additional _ objectName "[]" s' r] by simp

lemma compileDefinition_clean:
  assumes "compileDefinition n e mp s key schemas = Ok (s', schemas')"
    and "\<forall>ks \<in> set schemas. cleanSchema (snd ks)"
  shows "\<forall>ks \<in> set schemas'. cleanSchema (snd ks)"
proof -
  from assms(1) have "schemas' = schemas
      \<or> (\<exists>s1 s2 r s3 a options. getSchema n s1 key (Reg [propKey key]) = Ok (s2, r)
            \<and> processAdditionalProperties n s2 a key = Ok (s3, options)
            \<and> (\<exists>opts. schemas' = upd schemas (propKey key)
                           (Schema (Obj (assign (entries r) options)) opts)))"
    unfolding compileDefinition_def
    apply (auto simp: andThen_Ok_iff lift_Ok_iff split: if_splits)
     apply blast+
    done
  then show ?thesis
  proof
    assume "schemas' = schemas"
    then show ?thesis using assms(2) by simp
  next
    assume "\<exists>s1 s2 r s3 a options. getSchema n s1 key (Reg [propKey key]) = Ok (s2, r)
            \<and> processAdditionalProperties n s2 a key = Ok (s3, options)
            \<and> (\<exists>opts. schemas' = upd schemas (propKey key)
                           (Schema (Obj (assign (entries r) options)) opts))"
    then obtain s1 s2 r s3 a options opts where
      g: "getSchema n s1 key (Reg [propKey key]) = Ok (s2, r)"
      and ap: "processAdditionalProperties n s2 a key = Ok (s3, options)"
      and sch: "schemas' = upd schemas (propKey key)
                  (Schema (Obj (assign (entries r) options)) opts)" by blast
    from getSchema_reservedFree [OF g] have r: "reservedFree r" by blast
    from processAdditionalProperties_keys [OF ap] obtain kvs where
      o: "options = Obj kvs" "fst ` set kvs \<subseteq> UNIV - {''_id'', ''__v''}" by blast
    have "cleanSchema (Schema (Obj (assign (entries r) options)) opts)"
      using r o by (auto simp: keys_assign reservedFree_def)
    then show ?thesis
      using assms(2) set_upd_subset [of schemas "propKey key"] unfolding sch by fastforce
  qed
qed

lemma compileDefinitions_clean:
  "compileDefinitions n e mp s keys schemas = Ok (s', schemas') \<Longrightarrow>
   \<forall>ks \<in> set schemas. cleanSchema (snd ks) \<Longrightarrow> \<forall>ks \<in> set schemas'. cleanSchema (snd ks)"
proof (induction keys arbitrary: s schemas)
  case Nil
  then show ?case by simp
next
  case (Cons key keys)
  from Cons.prems(1) obtain s1 schemas1 where
    1: "compileDefinition n e mp s key schemas = Ok (s1, schemas1)"
    and 2: "compileDefinitions n e mp s1 keys schemas1 = Ok (s', schemas')"
    by (auto split: res.splits)
  from compileDefinition_clean [OF 1 Cons.prems(2)] Cons.IH [OF 2] show ?case by blast
qed

lemma compile_clean:
  assumes "compile n e s spec extra = Ok (s', schemas, models)"
  shows "(\<forall>ks \<in> set schemas. cleanSchema (snd ks)) \<and> (\<forall>km \<in> set models. cleanModel (snd km))"
proof -
  from assms obtain mp s2 keys where
    c: "compileDefinitions n e mp s2 keys [] = Ok (s', schemas)"
    and m: "models = registerModels schemas"
    unfolding compile_def
    by (auto simp: andThen_Ok_iff lift_Ok_iff Let_def split: if_splits)
  from compileDefinitions_clean [OF c] have "\<forall>ks \<in> set schemas. cleanSchema (snd ks)" by simp
  then show ?thesis unfolding m registerModels_def by auto
qed

lemma assign_Undefined [simp]: "assign props Undefined = props"
  by (simp add: assign_def)

lemma getSchemaLoop_filter:
  "getSchemaLoop (Suc n) s object keys t objectName props
     = getSchemaLoop (Suc n) s object (filter (\<lambda>k. \<not> isMongodbReserved k) keys) t objectName props"
proof (induction keys arbitrary: s props)
  case Nil
  show ?case by simp
next
  case (Cons key keys)
  show ?case
  proof (cases "isMongodbReserved key")
    case True
    then show ?thesis using Cons by simp
  next
    case False
    then show ?thesis using Cons by (simp del: getSchemaProperty.simps)
  qed
qed

text \<open>
  Claim C3.  The property map that \<^verbatim>\<open>getSchema\<close> returns never has a member named
  \<^verbatim>\<open>_id\<close> or \<^verbatim>\<open>__v\<close>, and neither has the property map of any schema or
  model that \<^verbatim>\<open>compile\<close> returns, where the additional properties of the extension
  metadata have been merged in; this holds for every document, every session and every
  depth bound.  The loop over the declared fields runs exactly as it does over the fields
  that are not reserved: the reserved ones are passed over and nothing else changes.
\<close>

theorem reserved_fields_never_emitted:
  "(\<forall>r. result (getSchema n s objectName node) = Ok r \<longrightarrow> reservedFree r)
   \<and> (\<forall>schemas models. result (compile n e s spec extra) = Ok (schemas, models)
        \<longrightarrow> (\<forall>ks \<in> set schemas. cleanSchema (snd ks)) \<and> (\<forall>km \<in> set models. cleanModel (snd km)))
   \<and> getSchemaLoop (Suc n) s object keys t objectName props
       = getSchemaLoop (Suc n) s object (filter (\<lambda>k. \<not> isMongodbReserved k) keys) t objectName props"
proof (intro conjI allI impI)
  fix r assume "result (getSchema n s objectName node) = Ok r"
  then obtain s' where "getSchema n s objectName node = Ok (s', r)"
    by (auto simp: result_Ok_iff)
  from getSchema_reservedFree [OF this] show "reservedFree r" by blast
next
  fix schemas models
  assume "result (compile n e s spec extra) = Ok (schemas, models)"
  then obtain s' where c: "compile n e s spec extra = Ok (s', schemas, models)"
    by (auto simp: result_Ok_iff)
  from compile_clean [OF c] show "\<forall>ks \<in> set schemas. cleanSchema (snd ks)" by blast
  from compile_clean [OF c] show "\<forall>km \<in> set models. cleanModel (snd km)" by blast
next
  show "getSchemaLoop (Suc n) s object keys t objectName props
       = getSchemaLoop (Suc n) s object (filter (\<lambda>k. \<not> isMongodbReserved k) keys) t objectName props"
    by (rule getSchemaLoop_filter)
qed

theorem reserved_fields_never_emitted_witness:
  "result (compile 6 exampleEnv initialSession (Value reservedDocument) Undefined)
     = Ok ([(''User'', compiledUser)], [(''User'', Model ''User'' compiledUser)])
   \<and> cleanSchema compiledUser \<and> cleanModel (Model ''User'' compiledUser)"
proof -
  have h: "result (compile 6 exampleEnv initialSession (Value reservedDocument) Undefined)
     = Ok ([(''User'', compiledUser)], [(''User'', Model ''User'' compiledUser)])"
    by code_simp
  from reserved_fields_never_emitted [of 6 initialSession, THEN conjunct2, THEN conjunct1,
      rule_format, OF h]
  have "(\<forall>ks \<in> set [(''User'', compiledUser)]. cleanSchema (snd ks))
      \<and> (\<forall>km \<in> set [(''User'', Model ''User'' compiledUser)]. cleanModel (snd km))" .
  then have "cleanSchema compiledUser \<and> cleanModel (Model ''User'' compiledUser)"
    by (simp del: cleanSchema.simps cleanModel.simps)
  with h show ?thesis by blast
qed

section \<open>Exclusion of definitions\<close>










lemma frame_refl [simp]: "frame s s"
  by (simp add: frame_def rew_refl)


lemma wfnode_nchild [simp]: "wfnode (nchild node k)"
  by (cases node) auto

lemma wfnode_objectOf [simp]: "wfnode node \<Longrightarrow> wfnode (objectOf node v)"
  by (simp add: objectOf_def)

lemma wfnode_cloneOf [simp]: "wfnode (cloneOf s t)"
  by (simp add: cloneOf_def)


































section \<open>Extra definitions\<close>











lemma plain_missing: "plain v \<Longrightarrow> k \<notin> fst ` set (entries v) \<Longrightarrow> getp v k = Undefined"
  by (cases v) (simp_all add: lookup_Undefined)



















lemma definitions_processDocumentIndex [simp]:
  "definitions (processDocumentIndex s key) = definitions s"
  by (simp add: processDocumentIndex_def)












end
